theory Spec2Isabelle
  imports Complex_Main "HOL-Library.Log_Nat"
begin

section \<open>Python floats\<close>

text \<open>
  \<^verbatim>\<open>remove_footer\<close> converts every coordinate with \<^verbatim>\<open>float(...)\<close> and adds the footer
  height with the \<^verbatim>\<open>+\<close> of Python floats, which are IEEE 754 binary64 numbers: 53
  significant bits, exponents from -1022 to 1023, results rounded to the nearest
  representable number with ties going to the even significand, overflow to an infinity.

  A float is modelled by the number it denotes: a finite float by its exact rational value,
  plus the two infinities and NaN. The two zeros \<^verbatim>\<open>0.0\<close> and \<^verbatim>\<open>-0.0\<close>, which Python's
  \<^verbatim>\<open>==\<close> identifies and which add alike to every non-zero number, are both \<open>Fin 0\<close>.
\<close>

datatype pyfloat = Fin rat | PInf | NInf | NaN

text \<open>Rounding a rational to the nearest integer, ties to the even one.\<close>

definition rne :: "rat \<Rightarrow> int" where
  "rne x =
     (let f = \<lfloor>x\<rfloor>; d = x - of_int f
      in if d < 1 / 2 then f
         else if 1 / 2 < d then f + 1
         else if even f then f else f + 1)"

text \<open>
  Every finite binary64 number is an integer multiple of \<open>2 ^ -1074\<close> (the smallest
  subnormal). \<open>drop_bits x\<close> is the number of low bits, counted in that unit, that a
  53-bit significand cannot hold for a number of the magnitude of \<open>x\<close>; it is 0 in the
  subnormal range and in the first normal binade.
\<close>

definition drop_bits :: "rat \<Rightarrow> nat" where
  "drop_bits x = nat (bitlen \<lfloor>\<bar>x\<bar> * 2 ^ 1074\<rfloor> - 53)"

definition ulp :: "rat \<Rightarrow> rat" where
  "ulp x = 2 ^ drop_bits x / 2 ^ 1074"

text \<open>Round to nearest, ties to even, with an unbounded exponent range upwards.\<close>

definition round_nearest :: "rat \<Rightarrow> rat" where
  "round_nearest x = of_int (rne (x / ulp x)) * ulp x"

text \<open>The rounding of binary64: a result of magnitude \<open>2 ^ 1024\<close> or more overflows.\<close>

definition round64 :: "rat \<Rightarrow> pyfloat" where
  "round64 x =
     (let r = round_nearest x
      in if 2 ^ 1024 \<le> r then PInf else if r \<le> - (2 ^ 1024) then NInf else Fin r)"

text \<open>Which rationals are binary64 numbers.\<close>

definition is_f64 :: "rat \<Rightarrow> bool" where
  "is_f64 x =
     (let s = \<bar>x\<bar> * 2 ^ 1074; n = \<lfloor>s\<rfloor>
      in of_int n = s \<and> n < 2 ^ 2098 \<and> n mod 2 ^ drop_bits x = 0)"

fun is_float :: "pyfloat \<Rightarrow> bool" where
  "is_float (Fin x) = is_f64 x"
| "is_float _ = True"

text \<open>Python's \<^verbatim>\<open>a + b\<close> on floats.\<close>

fun fadd :: "pyfloat \<Rightarrow> pyfloat \<Rightarrow> pyfloat" where
  "fadd NaN _ = NaN"
| "fadd _ NaN = NaN"
| "fadd PInf NInf = NaN"
| "fadd NInf PInf = NaN"
| "fadd PInf _ = PInf"
| "fadd _ PInf = PInf"
| "fadd NInf _ = NInf"
| "fadd _ NInf = NInf"
| "fadd (Fin a) (Fin b) = round64 (a + b)"



section \<open>Python's \<^verbatim>\<open>float(str)\<close>\<close>

text \<open>
  The command-line block converts its third argument with \<^verbatim>\<open>float(sys.argv[3])\<close>.
  Strings are sequences of code points below 256. \<^verbatim>\<open>float\<close> strips white space at both
  ends, accepts underscores between two digits only, reads an optional sign followed by
  \<^verbatim>\<open>inf\<close>, \<^verbatim>\<open>infinity\<close> or \<^verbatim>\<open>nan\<close> in any case, or by a decimal number with an optional
  exponent, and rounds the decimal value correctly to binary64. Any other string raises
  \<^verbatim>\<open>ValueError\<close>, which is \<open>None\<close> here.
\<close>

definition is_space :: "char \<Rightarrow> bool" where
  "is_space c = (of_char c \<in> {9, 10, 11, 12, 13, 32, 133, 160 :: nat})"

definition is_digit :: "char \<Rightarrow> bool" where
  "is_digit c = (48 \<le> (of_char c :: nat) \<and> (of_char c :: nat) \<le> 57)"

definition strip :: "string \<Rightarrow> string" where
  "strip s = rev (dropWhile is_space (rev (dropWhile is_space s)))"

fun underscores_ok :: "char \<Rightarrow> string \<Rightarrow> bool" where
  "underscores_ok prev [] = (prev \<noteq> CHR ''_'')"
| "underscores_ok prev (c # cs) =
     ((if c = CHR ''_'' then is_digit prev
       else if prev = CHR ''_'' then is_digit c else True)
      \<and> underscores_ok c cs)"

fun lower :: "char \<Rightarrow> char" where
  "lower c =
     (if 65 \<le> (of_char c :: nat) \<and> (of_char c :: nat) \<le> 90
      then ''abcdefghijklmnopqrstuvwxyz'' ! (of_char c - 65) else c)"

fun digits_value :: "int \<Rightarrow> string \<Rightarrow> int" where
  "digits_value acc [] = acc"
| "digits_value acc (c # cs) = digits_value (10 * acc + (of_char c - 48)) cs"

definition split_sign :: "string \<Rightarrow> bool \<times> string" where
  "split_sign s =
     (case s of
        c # cs \<Rightarrow> if c = CHR ''-'' then (True, cs) else if c = CHR ''+'' then (False, cs)
                  else (False, s)
      | [] \<Rightarrow> (False, s))"

text \<open>The exponent part: absent, or \<^verbatim>\<open>e\<close> with an optional sign and at least one digit.\<close>

definition parse_exponent :: "string \<Rightarrow> int option" where
  "parse_exponent s =
     (case s of
        [] \<Rightarrow> Some 0
      | c # cs \<Rightarrow>
          if c = CHR ''e'' \<or> c = CHR ''E'' then
            (let (neg, ds) = split_sign cs
             in if ds \<noteq> [] \<and> list_all is_digit ds
                then Some (if neg then - digits_value 0 ds else digits_value 0 ds)
                else None)
          else None)"

definition scale10 :: "rat \<Rightarrow> int \<Rightarrow> rat" where
  "scale10 m k = (if 0 \<le> k then m * 10 ^ nat k else m / 10 ^ nat (- k))"

definition parse_number :: "string \<Rightarrow> rat option" where
  "parse_number s =
     (let ipart = takeWhile is_digit s;
          r1 = dropWhile is_digit s;
          fpart = (case r1 of c # cs \<Rightarrow> if c = CHR ''.'' then takeWhile is_digit cs else []
                   | [] \<Rightarrow> []);
          r2 = (case r1 of c # cs \<Rightarrow> if c = CHR ''.'' then dropWhile is_digit cs else r1
                | [] \<Rightarrow> [])
      in if ipart = [] \<and> fpart = [] then None
         else case parse_exponent r2 of
                None \<Rightarrow> None
              | Some e \<Rightarrow>
                  Some (scale10 (of_int (digits_value 0 (ipart @ fpart)))
                          (e - int (length fpart))))"

definition py_float :: "string \<Rightarrow> pyfloat option" where
  "py_float s =
     (let t = strip s
      in if \<not> underscores_ok (CHR 0x00) t then None
         else
           let (neg, body) = split_sign (filter (\<lambda>c. c \<noteq> CHR ''_'') t);
               word = map lower body
           in if word = ''inf'' \<or> word = ''infinity'' then Some (if neg then NInf else PInf)
              else if word = ''nan'' then Some NaN
              else case parse_number body of
                     None \<Rightarrow> None
                   | Some v \<Rightarrow> Some (round64 (if neg then - v else v)))"

section \<open>Documents, files and the process\<close>

text \<open>
  The page rectangle as the loop reads it: \<^verbatim>\<open>page.mediabox\<close> with its two corners
  \<^verbatim>\<open>lower_left\<close> and \<^verbatim>\<open>upper_right\<close>, each an (x, y) pair, every coordinate already
  converted by \<^verbatim>\<open>float(...)\<close>.
\<close>

record mediabox =
  lower_left :: "pyfloat \<times> pyfloat"
  upper_right :: "pyfloat \<times> pyfloat"

text \<open>
  An exception (some subclass of \<^verbatim>\<open>Exception\<close>) raised by the PDF library or by the
  operating system: its class name and the text \<^verbatim>\<open>str(e)\<close>.
\<close>

datatype exn = PyException string string

fun str_exn :: "exn \<Rightarrow> string" where
  "str_exn (PyException cls msg) = msg"

text \<open>
  A page: its rectangle, or the exception that reading or converting it raises, and its
  content, which the tool never touches.
\<close>

record page =
  box :: "exn + mediabox"
  content :: string

datatype disk_file = Pdf "page list" | NotPdf exn

text \<open>
  The environment of a run: the files (a parseable document, or anything else, with the
  exception \<^verbatim>\<open>PdfReader\<close> raises on it), the paths that cannot be opened for writing,
  whether serialising fails after the output file has been opened, and the lines printed so
  far. Parsing and serialising are the PDF library's: a file that the writer has written
  holds the writer's pages as they were, and reading it gives them back.
\<close>

record world =
  files :: "string \<rightharpoonup> disk_file"
  open_error :: "string \<rightharpoonup> exn"
  write_error :: "exn option"
  stdout :: "string list"

text \<open>
  How a call ends: it returns, \<^verbatim>\<open>sys.exit(n)\<close> raises \<^verbatim>\<open>SystemExit\<close> (which is not an
  \<^verbatim>\<open>Exception\<close>), or an \<^verbatim>\<open>Exception\<close> propagates.
\<close>

datatype 'a result = Return 'a | SysExit int | Raise exn

definition print :: "string \<Rightarrow> world \<Rightarrow> world" where
  "print s w = w\<lparr>stdout := stdout w @ [s]\<rparr>"

fun str_nat :: "nat \<Rightarrow> string" where
  "str_nat n =
     (if n < 10 then [''0123456789'' ! n]
      else str_nat (n div 10) @ [''0123456789'' ! (n mod 10)])"

declare str_nat.simps [simp del]

definition PdfReader :: "world \<Rightarrow> string \<Rightarrow> exn + page list" where
  "PdfReader w path =
     (case files w path of
        None \<Rightarrow> Inl (PyException ''FileNotFoundError'' path)
      | Some (NotPdf e) \<Rightarrow> Inl e
      | Some (Pdf pages) \<Rightarrow> Inr pages)"

text \<open>
  What \<^verbatim>\<open>open(path, 'wb')\<close> leaves before anything is written: an empty file, which is
  not a document. A write that fails leaves it so, or with part of the bytes, which is no
  document either; the model keeps the empty file.
\<close>

definition empty_file :: disk_file where
  "empty_file = NotPdf (PyException ''EmptyFileError'' ''Cannot read an empty file'')"

section \<open>\<^verbatim>\<open>remove_footer\<close>\<close>

text \<open>Lines 34 to 45: the body of the loop on one rectangle.\<close>

definition crop :: "pyfloat \<Rightarrow> mediabox \<Rightarrow> mediabox" where
  "crop footer_height_points media_box =
     (let lower_left_x = fst (lower_left media_box);
          lower_left_y = snd (lower_left media_box);
          upper_right_x = fst (upper_right media_box);
          upper_right_y = snd (upper_right media_box);
          new_lower_y = fadd lower_left_y footer_height_points
      in media_box\<lparr>lower_left := (lower_left_x, new_lower_y),
                     upper_right := (upper_right_x, upper_right_y)\<rparr>)"

text \<open>
  Lines 32 to 50: the loop over \<^verbatim>\<open>enumerate(reader.pages)\<close>, with the writer's pages as
  the accumulator. \<open>n_pages\<close> is \<^verbatim>\<open>len(reader.pages)\<close>.
\<close>

fun process_pages ::
  "pyfloat \<Rightarrow> nat \<Rightarrow> nat \<Rightarrow> page list \<Rightarrow> page list \<Rightarrow> world \<Rightarrow> page list result \<times> world"
where
  "process_pages h n_pages page_num [] writer w = (Return writer, w)"
| "process_pages h n_pages page_num (page # rest) writer w =
     (case box page of
        Inl e \<Rightarrow> (Raise e, w)
      | Inr media_box \<Rightarrow>
          process_pages h n_pages (page_num + 1) rest
            (writer @ [page\<lparr>box := Inr (crop h media_box)\<rparr>])
            (print (''Processed page '' @ str_nat (page_num + 1) @ ''/'' @ str_nat n_pages) w))"

text \<open>Lines 53 and 54: open the output file, then serialise the writer into it.\<close>

definition write_output :: "string \<Rightarrow> page list \<Rightarrow> world \<Rightarrow> unit result \<times> world" where
  "write_output output_pdf writer w =
     (case open_error w output_pdf of
        Some e \<Rightarrow> (Raise e, w)
      | None \<Rightarrow>
          (let w1 = w\<lparr>files := (files w)(output_pdf \<mapsto> empty_file)\<rparr>
           in case write_error w1 of
                Some e \<Rightarrow> (Raise e, w1)
              | None \<Rightarrow> (Return (), w1\<lparr>files := (files w1)(output_pdf \<mapsto> Pdf writer)\<rparr>)))"

text \<open>Lines 22 to 59: the body of the \<^verbatim>\<open>try\<close>.\<close>

definition remove_footer_try ::
  "string \<Rightarrow> string \<Rightarrow> pyfloat \<Rightarrow> world \<Rightarrow> bool result \<times> world" where
  "remove_footer_try input_pdf output_pdf footer_height_points w =
     (if files w input_pdf = None then
        (SysExit 1,
         print (''Error: Input file '' @ [CHR 0x27] @ input_pdf @ [CHR 0x27] @ '' not found.'') w)
      else
        case PdfReader w input_pdf of
          Inl e \<Rightarrow> (Raise e, w)
        | Inr pages \<Rightarrow>
            (case process_pages footer_height_points (length pages) 0 pages [] w of
               (Raise e, w1) \<Rightarrow> (Raise e, w1)
             | (SysExit n, w1) \<Rightarrow> (SysExit n, w1)
             | (Return writer, w1) \<Rightarrow>
                 (case write_output output_pdf writer w1 of
                    (Raise e, w2) \<Rightarrow> (Raise e, w2)
                  | (SysExit n, w2) \<Rightarrow> (SysExit n, w2)
                  | (Return _, w2) \<Rightarrow>
                      (Return True,
                       print (''Output saved to: '' @ output_pdf)
                         (print ([CHR 0x0A] @ ''Success! Footer removed from ''
                                  @ str_nat (length pages) @ '' pages.'') w2)))))"

text \<open>
  Lines 21 to 63: \<^verbatim>\<open>except Exception\<close> catches what the body raises, prints it and
  exits with status 1; a \<^verbatim>\<open>SystemExit\<close> passes through.
\<close>

definition remove_footer ::
  "string \<Rightarrow> string \<Rightarrow> pyfloat \<Rightarrow> world \<Rightarrow> bool result \<times> world" where
  "remove_footer input_pdf output_pdf footer_height_points w =
     (case remove_footer_try input_pdf output_pdf footer_height_points w of
        (Raise e, w1) \<Rightarrow> (SysExit 1, print (''Error processing PDF: '' @ str_exn e) w1)
      | r \<Rightarrow> r)"

section \<open>The program\<close>

text \<open>Lines 66 to 83. The footer height is the integer 50, which \<^verbatim>\<open>+\<close> converts to 50.0.\<close>

definition main :: "world \<Rightarrow> bool result \<times> world" where
  "main w =
     (let input_file = ''input.pdf'';
          output_file = ''output.pdf'';
          footer_height = 50;
          w1 = print ''PDF Footer Remover'' w;
          w2 = print (replicate 50 (CHR ''='')) w1;
          w3 = print (''Input file: '' @ input_file) w2;
          w4 = print (''Output file: '' @ output_file) w3;
          w5 = print (''Footer height to remove: '' @ str_nat footer_height @ '' points'') w4;
          w6 = print (replicate 50 (CHR ''='')) w5;
          w7 = print [] w6
      in remove_footer input_file output_file (Fin (of_nat footer_height)) w7)"

text \<open>
  How the process ends: normally (status 0), by \<^verbatim>\<open>sys.exit(n)\<close>, or with an exception
  nobody caught, for which the interpreter prints a traceback and exits with status 1.
\<close>

datatype finish = Completed | Exited int | UncaughtValueError string | Uncaught exn

fun exit_status :: "finish \<Rightarrow> int" where
  "exit_status Completed = 0"
| "exit_status (Exited n) = n"
| "exit_status (UncaughtValueError s) = 1"
| "exit_status (Uncaught e) = 1"

fun finish_of :: "bool result \<Rightarrow> finish" where
  "finish_of (Return r) = Completed"
| "finish_of (SysExit n) = Exited n"
| "finish_of (Raise e) = Uncaught e"

text \<open>Lines 86 to 95, on \<^verbatim>\<open>sys.argv\<close>.\<close>

definition script :: "string list \<Rightarrow> world \<Rightarrow> finish \<times> world" where
  "script argv w =
     (if length argv > 1 then
        (let input_pdf = argv ! 1;
             output_pdf = (if length argv > 2 then argv ! 2 else ''output.pdf'')
         in case (if length argv > 3 then py_float (argv ! 3) else Some (Fin 50)) of
              None \<Rightarrow> (UncaughtValueError (argv ! 3), w)
            | Some footer_height \<Rightarrow>
                (let (r, w1) = remove_footer input_pdf output_pdf footer_height w
                 in (finish_of r, w1)))
      else
        (let (r, w1) = main w in (finish_of r, w1)))"

section \<open>Notions used to state the properties\<close>

text \<open>A page whose rectangle can be read, and the page the loop makes of it.\<close>

definition readable :: "page \<Rightarrow> bool" where
  "readable p = (case box p of Inl e \<Rightarrow> False | Inr b \<Rightarrow> True)"

definition cropped :: "pyfloat \<Rightarrow> page \<Rightarrow> page" where
  "cropped h p = (case box p of Inl e \<Rightarrow> p | Inr b \<Rightarrow> p\<lparr>box := Inr (crop h b)\<rparr>)"

text \<open>The lines a run prints.\<close>

definition progress_line :: "nat \<Rightarrow> nat \<Rightarrow> string" where
  "progress_line n i = ''Processed page '' @ str_nat (i + 1) @ ''/'' @ str_nat n"

definition error_line :: "exn \<Rightarrow> string" where
  "error_line e = ''Error processing PDF: '' @ str_exn e"

definition success_lines :: "nat \<Rightarrow> string \<Rightarrow> string list" where
  "success_lines n output_pdf =
     [[CHR 0x0A] @ ''Success! Footer removed from '' @ str_nat n @ '' pages.'',
      ''Output saved to: '' @ output_pdf]"

text \<open>What \<^verbatim>\<open>main\<close> prints before it calls \<^verbatim>\<open>remove_footer\<close>.\<close>

definition banner :: "world \<Rightarrow> world" where
  "banner w =
     w\<lparr>stdout := stdout w @
        [''PDF Footer Remover'',
         ''=================================================='',
         ''Input file: input.pdf'',
         ''Output file: output.pdf'',
         ''Footer height to remove: 50 points'',
         ''=================================================='',
         []]\<rparr>"

text \<open>Sample inputs: a US Letter page, and a disk that holds one file and lets any write succeed.\<close>

definition letter_page :: page where
  "letter_page =
     \<lparr>box = Inr \<lparr>lower_left = (Fin 0, Fin 0), upper_right = (Fin 612, Fin 792)\<rparr>,
      content = ''page 1''\<rparr>"

definition disk :: "string \<Rightarrow> disk_file \<Rightarrow> world" where
  "disk path f = \<lparr>files = [path \<mapsto> f], open_error = Map.empty, write_error = None, stdout = []\<rparr>"


definition corrupt_file :: disk_file where
  "corrupt_file = NotPdf (PyException ''PdfReadError'' ''EOF marker not found'')"


definition read_only_disk :: "string \<Rightarrow> disk_file \<Rightarrow> world" where
  "read_only_disk path f =
     (disk path f)\<lparr>open_error :=
        (\<lambda>p. Some (PyException ''PermissionError'' ''[Errno 13] Permission denied''))\<rparr>"


section \<open>Facts about rounding\<close>

lemma rne_of_int: "rne (of_int n) = n"
  by (simp add: rne_def)

lemma rne_floor_le: "\<lfloor>x\<rfloor> \<le> rne x"
  by (simp add: rne_def Let_def)

lemma rne_le_floor: "rne x \<le> \<lfloor>x\<rfloor> + 1"
  by (simp add: rne_def Let_def)

lemma rne_mono: "x \<le> y \<Longrightarrow> rne x \<le> rne y"
proof -
  assume xy: "x \<le> y"
  then have fl: "\<lfloor>x\<rfloor> \<le> \<lfloor>y\<rfloor>" by (rule floor_mono)
  show ?thesis
  proof (cases "\<lfloor>x\<rfloor> = \<lfloor>y\<rfloor>")
    case True
    with xy have "x - of_int \<lfloor>x\<rfloor> \<le> y - of_int \<lfloor>y\<rfloor>" by simp
    with True show ?thesis by (auto simp: rne_def Let_def)
  next
    case False
    with fl have "\<lfloor>x\<rfloor> + 1 \<le> \<lfloor>y\<rfloor>" by simp
    with rne_le_floor [of x] rne_floor_le [of y] show ?thesis by linarith
  qed
qed

lemma rne_ge_int: "of_int n \<le> x \<Longrightarrow> n \<le> rne x"
  using rne_mono [of "of_int n" x] by (simp add: rne_of_int)

lemma rne_le_int: "x \<le> of_int n \<Longrightarrow> rne x \<le> n"
  using rne_mono [of x "of_int n"] by (simp add: rne_of_int)

lemma ulp_pos: "0 < ulp x"
  by (simp add: ulp_def)



lemma bitlen_mono: "a \<le> b \<Longrightarrow> bitlen a \<le> bitlen b"
proof (cases "0 < b")
  case True
  assume "a \<le> b"
  with bitlen_bounds [OF True] have "a < 2 ^ nat (bitlen b)" by linarith
  then show ?thesis by (simp add: bitlen_le_iff_power bitlen_nonneg)
next
  case False
  assume "a \<le> b"
  with False have "bitlen a = 0" by (simp add: bitlen_eq_zero_iff)
  then show ?thesis by (simp add: bitlen_nonneg)
qed

lemma drop_bits_mono: "\<bar>x\<bar> \<le> \<bar>y\<bar> \<Longrightarrow> drop_bits x \<le> drop_bits y"
proof -
  assume "\<bar>x\<bar> \<le> \<bar>y\<bar>"
  then have "\<bar>x\<bar> * 2 ^ 1074 \<le> \<bar>y\<bar> * 2 ^ 1074" by simp
  then have "\<lfloor>\<bar>x\<bar> * 2 ^ 1074\<rfloor> \<le> \<lfloor>\<bar>y\<bar> * 2 ^ 1074\<rfloor>" by (rule floor_mono)
  then have "bitlen \<lfloor>\<bar>x\<bar> * 2 ^ 1074\<rfloor> \<le> bitlen \<lfloor>\<bar>y\<bar> * 2 ^ 1074\<rfloor>" by (rule bitlen_mono)
  then show ?thesis by (simp add: drop_bits_def)
qed

text \<open>Every number lies below \<open>2 ^ 53\<close> units in the last place.\<close>

lemma abs_less_ulp: "\<bar>x\<bar> < 2 ^ 53 * ulp x"
proof -
  let ?n = "\<lfloor>\<bar>x\<bar> * 2 ^ 1074\<rfloor>"
  have "bitlen ?n \<le> 53 + int (drop_bits x)" by (simp add: drop_bits_def)
  then have "?n < 2 ^ nat (53 + int (drop_bits x))"
    by (simp add: bitlen_le_iff_power)
  then have "?n < 2 ^ (53 + drop_bits x)" by (simp add: nat_add_distrib)
  then have "?n + 1 \<le> 2 ^ (53 + drop_bits x)" by simp
  then have "(of_int (?n + 1) :: rat) \<le> of_int (2 ^ (53 + drop_bits x))"
    by (simp only: of_int_le_iff)
  moreover have "\<bar>x\<bar> * 2 ^ 1074 < of_int (?n + 1)"
    by (simp only: of_int_add of_int_1) linarith
  ultimately have "\<bar>x\<bar> * 2 ^ 1074 < 2 ^ (53 + drop_bits x)" by simp
  then have "\<bar>x\<bar> < 2 ^ (53 + drop_bits x) / 2 ^ 1074" by (simp add: pos_less_divide_eq)
  then show ?thesis by (simp add: ulp_def power_add)
qed


text \<open>A binary64 number is a whole number of units of every smaller magnitude.\<close>

lemma is_f64_multiple:
  assumes "is_f64 v" and "k \<le> drop_bits v"
  shows "\<exists>m. v = of_int m * (2 ^ k / 2 ^ 1074)"
proof -
  define n where "n = \<lfloor>\<bar>v\<bar> * 2 ^ 1074\<rfloor>"
  from assms(1) have n: "of_int n = \<bar>v\<bar> * 2 ^ 1074" and dv: "n mod 2 ^ drop_bits v = 0"
    unfolding n_def by (simp_all only: is_f64_def Let_def)
  from dv obtain q where q: "n = 2 ^ drop_bits v * q" by auto
  from assms(2) have "(2::int) ^ drop_bits v = 2 ^ k * 2 ^ (drop_bits v - k)"
    by (simp flip: power_add)
  with q have "n = (2 ^ (drop_bits v - k) * q) * 2 ^ k" by simp
  then obtain m where m: "n = m * 2 ^ k" by blast
  have "\<bar>v\<bar> = of_int n / 2 ^ 1074" by (subst n) simp
  also have "\<dots> = of_int m * (2 ^ k / 2 ^ 1074)" by (simp add: m)
  finally have abs: "\<bar>v\<bar> = of_int m * (2 ^ k / 2 ^ 1074)" .
  show ?thesis
  proof (cases "0 \<le> v")
    case True
    with abs show ?thesis by auto
  next
    case False
    with abs have "v = of_int (- m) * (2 ^ k / 2 ^ 1074)" by simp
    then show ?thesis by blast
  qed
qed

lemma is_f64_multiple_ulp:
  assumes "is_f64 v" and "\<bar>x\<bar> \<le> \<bar>v\<bar>"
  shows "\<exists>m. v = of_int m * ulp x"
  unfolding ulp_def using is_f64_multiple [OF assms(1) drop_bits_mono [OF assms(2)]] .

lemma round_nearest_exact: "is_f64 x \<Longrightarrow> round_nearest x = x"
proof -
  assume "is_f64 x"
  then obtain m where m: "x = of_int m * ulp x"
    using is_f64_multiple_ulp [of x x] by auto
  have "x / ulp x = of_int m" using ulp_pos [of x] by (subst m) simp
  then show ?thesis unfolding round_nearest_def using m by (simp add: rne_of_int)
qed

lemma is_f64_bound: "is_f64 x \<Longrightarrow> \<bar>x\<bar> < 2 ^ 1024"
proof -
  let ?n = "\<lfloor>\<bar>x\<bar> * 2 ^ 1074\<rfloor>"
  assume "is_f64 x"
  then have n: "of_int ?n = \<bar>x\<bar> * 2 ^ 1074" and lt: "?n < 2 ^ 2098"
    by (simp_all add: is_f64_def Let_def)
  from lt have "(of_int ?n :: rat) < of_int (2 ^ 2098)" by (simp only: of_int_less_iff)
  with n have "\<bar>x\<bar> * 2 ^ 1074 < 2 ^ 1024 * 2 ^ 1074" by (simp flip: power_add)
  then show ?thesis by simp
qed

lemma round64_exact: "is_f64 x \<Longrightarrow> round64 x = Fin x"
proof -
  assume x: "is_f64 x"
  from is_f64_bound [OF x] have "\<not> 2 ^ 1024 \<le> x" and "\<not> x \<le> - (2 ^ 1024)"
    by linarith+
  then show ?thesis by (simp only: round64_def round_nearest_exact [OF x] Let_def if_False)
qed



subsection \<open>Recognising binary64 numbers\<close>

lemma is_f64_dyadic:
  assumes m: "\<bar>m\<bar> < 2 ^ 53" and b: "\<bar>m\<bar> * 2 ^ j < 2 ^ 2098"
  shows "is_f64 (of_int m * 2 ^ j / 2 ^ 1074)"
proof -
  define x :: rat where "x = of_int m * 2 ^ j / 2 ^ 1074"
  define n where "n = \<bar>m\<bar> * 2 ^ j"
  have s: "\<bar>x\<bar> * 2 ^ 1074 = of_int n"
    by (simp add: x_def n_def abs_mult)
  then have fl: "\<lfloor>\<bar>x\<bar> * 2 ^ 1074\<rfloor> = n" by simp
  from b have bound: "n < 2 ^ 2098" by (simp only: n_def)
  have db: "drop_bits x = nat (bitlen n - 53)"
    by (simp only: drop_bits_def fl)
  have "drop_bits x \<le> j"
  proof (cases "m = 0")
    case True
    then show ?thesis by (simp add: db n_def)
  next
    case False
    then have pos: "0 < \<bar>m\<bar>" by simp
    from m have "bitlen \<bar>m\<bar> \<le> 53" by (simp add: bitlen_le_iff_power)
    moreover have "bitlen n = bitlen \<bar>m\<bar> + int j"
      unfolding n_def using pos by (rule bitlen_pow2)
    ultimately show ?thesis by (simp add: db)
  qed
  then have "(2::int) ^ drop_bits x dvd 2 ^ j" by (rule le_imp_power_dvd)
  then have "2 ^ drop_bits x dvd n" unfolding n_def by (rule dvd_mult)
  then have "n mod 2 ^ drop_bits x = 0" by simp
  with s fl bound show ?thesis
    unfolding x_def [symmetric] is_f64_def Let_def by (simp only: simp_thms)
qed

lemma dyadic_bound: "\<bar>m\<bar> < 2 ^ 53 \<Longrightarrow> j \<le> 2045 \<Longrightarrow> \<bar>m\<bar> * 2 ^ j < (2::int) ^ 2098"
proof -
  assume m: "\<bar>m\<bar> < 2 ^ 53" and j: "j \<le> 2045"
  then have "\<bar>m\<bar> * 2 ^ j < 2 ^ 53 * 2 ^ j" by simp
  also have "\<dots> = 2 ^ (53 + j)" by (simp add: power_add)
  also have "\<dots> \<le> (2::int) ^ 2098" using j by (intro power_increasing) simp_all
  finally show ?thesis .
qed

lemma is_f64_int: "\<bar>m\<bar> < 2 ^ 53 \<Longrightarrow> is_f64 (of_int m)"
  using is_f64_dyadic [of m 1074] dyadic_bound [of m 1074] by simp

lemma is_f64_int_shift: "\<bar>m\<bar> < 2 ^ 53 \<Longrightarrow> j \<le> 971 \<Longrightarrow> is_f64 (of_int m * 2 ^ j)"
  using is_f64_dyadic [of m "1074 + j"] dyadic_bound [of m "1074 + j"] by (simp add: power_add)


subsection \<open>Evaluating and bounding additions\<close>







text \<open>The result of an addition is again a float.\<close>

lemma round_nearest_is_f64:
  assumes r: "\<bar>round_nearest x\<bar> < 2 ^ 1024"
  shows "is_f64 (round_nearest x)"
proof -
  define d where "d = drop_bits x"
  define M where "M = rne (x / ulp x)"
  have u: "ulp x = 2 ^ d / 2 ^ 1074" by (simp only: ulp_def d_def)
  have "round_nearest x = of_int M * ulp x"
    by (simp only: round_nearest_def M_def)
  then have rn: "round_nearest x = of_int M * 2 ^ d / 2 ^ 1074"
    by (simp only: u times_divide_eq_right)
  from abs_less_ulp [of x] have "x \<le> 2 ^ 53 * ulp x" and "- (2 ^ 53) * ulp x \<le> x"
    by linarith+
  then have "x / ulp x \<le> of_int (2 ^ 53)" and "of_int (- (2 ^ 53)) \<le> x / ulp x"
    using ulp_pos [of x] by (simp_all add: pos_divide_le_eq pos_le_divide_eq)
  then have "M \<le> 2 ^ 53" and "- (2 ^ 53) \<le> M"
    unfolding M_def by (blast intro: rne_le_int rne_ge_int)+
  then have M: "\<bar>M\<bar> \<le> 2 ^ 53" by simp
  have "of_int (\<bar>M\<bar> * 2 ^ d) = \<bar>round_nearest x\<bar> * 2 ^ 1074"
    by (simp add: rn abs_mult)
  also have "\<dots> < 2 ^ 1024 * 2 ^ 1074" using r by simp
  also have "\<dots> = of_int (2 ^ 2098)" by (simp flip: power_add)
  finally have b: "\<bar>M\<bar> * 2 ^ d < 2 ^ 2098" by (simp only: of_int_less_iff)
  show ?thesis
  proof (cases "\<bar>M\<bar> < 2 ^ 53")
    case True
    then show ?thesis unfolding rn using b by (rule is_f64_dyadic)
  next
    case False
    with M have top: "\<bar>M\<bar> = 2 ^ 53" by simp
    then have M0: "M \<noteq> 0" by auto
    from top have "M = sgn M * 2 ^ 53" using sgn_mult_abs [of M] by simp
    then have "of_int M = (of_int (sgn M) * 2 ^ 53 :: rat)"
      by (metis of_int_mult of_int_numeral of_int_power)
    then have "of_int M * 2 ^ d = (of_int (sgn M) * 2 ^ (53 + d) :: rat)"
      by (simp only: power_add mult.assoc)
    then have rn': "round_nearest x = of_int (sgn M) * 2 ^ (53 + d) / 2 ^ 1074"
      by (simp only: rn)
    have "\<bar>sgn M\<bar> * 2 ^ (53 + d) = \<bar>M\<bar> * 2 ^ d"
      using top M0 by (simp add: power_add abs_sgn_eq)
    with b have "\<bar>sgn M\<bar> * 2 ^ (53 + d) < 2 ^ 2098" by simp
    moreover have "\<bar>sgn M\<bar> < 2 ^ 53" by (simp add: abs_sgn_eq)
    ultimately show ?thesis unfolding rn' by (intro is_f64_dyadic)
  qed
qed

lemma round64_is_float: "is_float (round64 x)"
proof -
  have "is_f64 (round_nearest x)"
    if "\<not> 2 ^ 1024 \<le> round_nearest x" and "\<not> round_nearest x \<le> - (2 ^ 1024)"
  proof -
    from that have "\<bar>round_nearest x\<bar> < 2 ^ 1024" by linarith
    then show ?thesis by (rule round_nearest_is_f64)
  qed
  then show ?thesis by (simp only: round64_def Let_def is_float.simps split: if_split) blast
qed

lemma fadd_is_float: "is_float (fadd a b)"
  by (cases a; cases b) (simp_all only: fadd.simps is_float.simps round64_is_float)




section \<open>Facts about the loop\<close>

lemma upt_shift: "[i..<i + Suc k] = i # [i + 1..<i + 1 + k]"
  by (subst upt_rec) simp

lemma process_pages_readable:
  "list_all readable pages \<Longrightarrow>
   process_pages h n i pages writer w =
     (Return (writer @ map (cropped h) pages),
      w\<lparr>stdout := stdout w @ map (progress_line n) [i..<i + length pages]\<rparr>)"
proof (induction pages arbitrary: i writer w)
  case Nil
  then show ?case by simp
next
  case (Cons p ps)
  from Cons.prems have p: "readable p" and ps: "list_all readable ps" by simp_all
  from p obtain b where b: "box p = Inr b"
    by (cases "box p") (simp_all add: readable_def)
  define w1 where "w1 = print (progress_line n i) w"
  have "process_pages h n i (p # ps) writer w =
      process_pages h n (i + 1) ps (writer @ [cropped h p]) w1"
    by (simp add: b cropped_def progress_line_def w1_def)
  also have "\<dots> = (Return ((writer @ [cropped h p]) @ map (cropped h) ps),
      w1\<lparr>stdout := stdout w1 @ map (progress_line n) [i + 1..<i + 1 + length ps]\<rparr>)"
    by (rule Cons.IH [OF ps])
  also have "\<dots> = (Return (writer @ map (cropped h) (p # ps)),
      w\<lparr>stdout := stdout w @ map (progress_line n) [i..<i + length (p # ps)]\<rparr>)"
    by (simp only: length_Cons upt_shift) (simp add: w1_def print_def)
  finally show ?case .
qed



section \<open>Every way a call of \<^verbatim>\<open>remove_footer\<close> ends\<close>

lemma remove_footer_missing:
  "files w input_pdf = None \<Longrightarrow>
   remove_footer input_pdf output_pdf h w =
     (SysExit 1,
      print (''Error: Input file '' @ [CHR 0x27] @ input_pdf @ [CHR 0x27] @ '' not found.'') w)"
  by (simp add: remove_footer_def remove_footer_try_def)

lemma remove_footer_unparseable:
  "files w input_pdf = Some (NotPdf e) \<Longrightarrow>
   remove_footer input_pdf output_pdf h w = (SysExit 1, print (error_line e) w)"
  by (simp add: remove_footer_def remove_footer_try_def PdfReader_def error_line_def)


lemma remove_footer_open_fails:
  "files w input_pdf = Some (Pdf pages) \<Longrightarrow> list_all readable pages \<Longrightarrow>
   open_error w output_pdf = Some e \<Longrightarrow>
   remove_footer input_pdf output_pdf h w =
     (SysExit 1,
      print (error_line e)
        (w\<lparr>stdout := stdout w @ map (progress_line (length pages)) [0..<length pages]\<rparr>))"
  by (simp add: remove_footer_def remove_footer_try_def PdfReader_def error_line_def
      process_pages_readable write_output_def print_def)


lemma remove_footer_success:
  "files w input_pdf = Some (Pdf pages) \<Longrightarrow> list_all readable pages \<Longrightarrow>
   open_error w output_pdf = None \<Longrightarrow> write_error w = None \<Longrightarrow>
   remove_footer input_pdf output_pdf h w =
     (Return True,
      w\<lparr>files := (files w)(output_pdf \<mapsto> Pdf (map (cropped h) pages)),
        stdout := stdout w @ map (progress_line (length pages)) [0..<length pages]
          @ success_lines (length pages) output_pdf\<rparr>)"
  by (simp add: remove_footer_def remove_footer_try_def PdfReader_def
      process_pages_readable write_output_def print_def success_lines_def)



section \<open>Sample runs\<close>

lemma round64_numeral: "numeral k < (2 ^ 53 :: int) \<Longrightarrow> round64 (numeral k) = Fin (numeral k)"
  using is_f64_int [of "numeral k"] by (simp add: round64_exact)

lemma py_float_50: "py_float ''50'' = Some (Fin 50)"
  by (simp add: py_float_def strip_def is_space_def split_sign_def parse_number_def
      is_digit_def parse_exponent_def scale10_def round64_numeral)

lemma str_nat_50: "str_nat 50 = ''50''"
  by (simp add: str_nat.simps [of 50] str_nat.simps [of 5])

lemma rule_50: "replicate 50 (CHR ''='') = ''==================================================''"
  by (simp add: eval_nat_numeral)

lemma main_banner: "main w = remove_footer ''input.pdf'' ''output.pdf'' (Fin 50) (banner w)"
  by (simp add: main_def banner_def print_def Let_def rule_50 str_nat_50)

section \<open>A missing input file\<close>

text \<open>
  C5. When the input path does not exist, \<^verbatim>\<open>remove_footer\<close> prints the "not found" message
  and ends the process through \<^verbatim>\<open>sys.exit(1)\<close>; no file is created or changed.
\<close>

theorem missing_input_exits_1:
  assumes "files w input_pdf = None"
  shows "remove_footer input_pdf output_pdf h w =
           (SysExit 1,
            w\<lparr>stdout := stdout w @
               [''Error: Input file '' @ [CHR 0x27] @ input_pdf @ [CHR 0x27] @ '' not found.'']\<rparr>)
         \<and> exit_status (finish_of (fst (remove_footer input_pdf output_pdf h w))) = 1
         \<and> files (snd (remove_footer input_pdf output_pdf h w)) = files w"
  using assms by (simp add: remove_footer_missing print_def)

theorem missing_input_exits_1_witness:
  "files (disk ''input.pdf'' (Pdf [letter_page])) ''missing.pdf'' = None
   \<and> remove_footer ''missing.pdf'' ''output.pdf'' (Fin 50) (disk ''input.pdf'' (Pdf [letter_page])) =
       (SysExit 1,
        (disk ''input.pdf'' (Pdf [letter_page]))
          \<lparr>stdout := [''Error: Input file '' @ [CHR 0x27] @ ''missing.pdf'' @ [CHR 0x27] @ '' not found.'']\<rparr>)
   \<and> files (snd (remove_footer ''missing.pdf'' ''output.pdf'' (Fin 50)
         (disk ''input.pdf'' (Pdf [letter_page])))) ''output.pdf'' = None"
  using missing_input_exits_1 [of "disk ''input.pdf'' (Pdf [letter_page])" "''missing.pdf''"
      "''output.pdf''" "Fin 50"]
  by (simp add: disk_def)

section \<open>The default arguments\<close>

text \<open>
  C9. Invoked with no command-line argument, the program prints its banner and runs
  \<^verbatim>\<open>remove_footer\<close> on \<^verbatim>\<open>input.pdf\<close> and \<^verbatim>\<open>output.pdf\<close> with footer height 50: apart
  from the banner, exactly what the three explicit arguments \<^verbatim>\<open>input.pdf output.pdf 50\<close> run.
\<close>

theorem no_arguments_run_defaults:
  "script [prog] w =
     (finish_of (fst (remove_footer ''input.pdf'' ''output.pdf'' (Fin 50) (banner w))),
      snd (remove_footer ''input.pdf'' ''output.pdf'' (Fin 50) (banner w)))
   \<and> script [prog] w = script [prog, ''input.pdf'', ''output.pdf'', ''50''] (banner w)"
  by (simp add: script_def main_banner py_float_50 split_beta Let_def)

section \<open>The output document\<close>




lemma readable_letter_page: "readable letter_page"
  by (simp add: readable_def letter_page_def)

text \<open>
  C7. On a document without pages the loop does nothing; when the output file can be
  written, \<^verbatim>\<open>remove_footer\<close> returns \<^verbatim>\<open>True\<close> and the output is a document with zero pages.
\<close>

theorem zero_pages_ok:
  assumes "files w input_pdf = Some (Pdf [])"
    and "open_error w output_pdf = None" and "write_error w = None"
  shows "remove_footer input_pdf output_pdf h w =
           (Return True,
            w\<lparr>files := (files w)(output_pdf \<mapsto> Pdf []),
              stdout := stdout w @ success_lines 0 output_pdf\<rparr>)"
  using remove_footer_success [OF assms(1) _ assms(2,3), of h] by simp

theorem zero_pages_ok_witness:
  "files (disk ''input.pdf'' (Pdf [])) ''input.pdf'' = Some (Pdf [])
   \<and> open_error (disk ''input.pdf'' (Pdf [])) ''output.pdf'' = None
   \<and> write_error (disk ''input.pdf'' (Pdf [])) = None
   \<and> fst (remove_footer ''input.pdf'' ''output.pdf'' (Fin 50) (disk ''input.pdf'' (Pdf []))) =
       Return True
   \<and> files (snd (remove_footer ''input.pdf'' ''output.pdf'' (Fin 50) (disk ''input.pdf'' (Pdf []))))
       ''output.pdf'' = Some (Pdf [])"
  using zero_pages_ok [of "disk ''input.pdf'' (Pdf [])" "''input.pdf''" "''output.pdf''" "Fin 50"]
  by (simp add: disk_def)





section \<open>Failures\<close>








lemma py_float_abc: "py_float ''abc'' = None"
  by (simp add: py_float_def strip_def is_space_def split_sign_def parse_number_def is_digit_def)

lemma script_with_height:
  "py_float height = Some h \<Longrightarrow>
   script (prog # input_pdf # output_pdf # height # extra) w =
     (finish_of (fst (remove_footer input_pdf output_pdf h w)),
      snd (remove_footer input_pdf output_pdf h w))"
  by (simp add: script_def Let_def split_beta)

text \<open>
  C8, as stated, fails: a footer height that is not a number does not reach the handler of
  \<^verbatim>\<open>remove_footer\<close>. \<^verbatim>\<open>float(sys.argv[3])\<close> raises \<^verbatim>\<open>ValueError\<close> in the command-line
  block, nothing catches it and the program prints nothing, whereas a corrupt input ends in
  \<^verbatim>\<open>sys.exit(1)\<close> after the handler's message.
\<close>

theorem malformed_height_not_caught:
  "script [''remover.py'', ''input.pdf'', ''output.pdf'', ''abc''] (disk ''input.pdf'' (Pdf [letter_page])) =
     (UncaughtValueError ''abc'', disk ''input.pdf'' (Pdf [letter_page]))
   \<and> script [''remover.py'', ''input.pdf'', ''output.pdf'', ''50''] (disk ''input.pdf'' corrupt_file) =
     (Exited 1,
      (disk ''input.pdf'' corrupt_file)\<lparr>stdout := [''Error processing PDF: EOF marker not found'']\<rparr>)"
proof
  show "script [''remover.py'', ''input.pdf'', ''output.pdf'', ''abc''] (disk ''input.pdf'' (Pdf [letter_page])) =
     (UncaughtValueError ''abc'', disk ''input.pdf'' (Pdf [letter_page]))"
    by (simp add: script_def py_float_abc)
  have "files (disk ''input.pdf'' corrupt_file) ''input.pdf'' =
      Some (NotPdf (PyException ''PdfReadError'' ''EOF marker not found''))"
    by (simp add: disk_def corrupt_file_def)
  from remove_footer_unparseable [OF this, of "''output.pdf''" "Fin 50"]
  show "script [''remover.py'', ''input.pdf'', ''output.pdf'', ''50''] (disk ''input.pdf'' corrupt_file) =
     (Exited 1,
      (disk ''input.pdf'' corrupt_file)\<lparr>stdout := [''Error processing PDF: EOF marker not found'']\<rparr>)"
    by (simp add: script_with_height [OF py_float_50] print_def error_line_def disk_def)
qed

text \<open>
  C8, amended. A corrupt PDF and an output path that cannot be opened both end in the handler
  of \<^verbatim>\<open>remove_footer\<close>: it prints \<^verbatim>\<open>Error processing PDF:\<close> with the text of the
  exception, the only thing that tells the two apart, and exits with status 1. A footer
  height that \<^verbatim>\<open>float\<close> rejects ends otherwise: the \<^verbatim>\<open>ValueError\<close> is raised before
  \<^verbatim>\<open>remove_footer\<close> is called and is not caught, the program prints nothing and changes
  nothing, and the interpreter ends the process with status 1.
\<close>

theorem failure_paths:
  "(py_float height = Some h \<and> files w input_pdf = Some (NotPdf e)
     \<longrightarrow> script (prog # input_pdf # output_pdf # height # extra) w =
           (Exited 1, print (error_line e) w))
   \<and> (py_float height = Some h \<and> files w input_pdf = Some (Pdf pages) \<and> list_all readable pages
       \<and> open_error w output_pdf = Some e
     \<longrightarrow> script (prog # input_pdf # output_pdf # height # extra) w =
           (Exited 1,
            print (error_line e)
              (w\<lparr>stdout := stdout w @ map (progress_line (length pages)) [0..<length pages]\<rparr>)))
   \<and> (py_float height = None
     \<longrightarrow> script (prog # input_pdf # output_pdf # height # extra) w = (UncaughtValueError height, w)
         \<and> exit_status (fst (script (prog # input_pdf # output_pdf # height # extra) w)) = 1)"
proof (intro conjI impI)
  assume "py_float height = Some h \<and> files w input_pdf = Some (NotPdf e)"
  then show "script (prog # input_pdf # output_pdf # height # extra) w =
           (Exited 1, print (error_line e) w)"
    by (simp add: script_with_height remove_footer_unparseable)
next
  assume "py_float height = Some h \<and> files w input_pdf = Some (Pdf pages)
       \<and> list_all readable pages \<and> open_error w output_pdf = Some e"
  then show "script (prog # input_pdf # output_pdf # height # extra) w =
           (Exited 1,
            print (error_line e)
              (w\<lparr>stdout := stdout w @ map (progress_line (length pages)) [0..<length pages]\<rparr>))"
    by (simp add: script_with_height remove_footer_open_fails)
next
  assume a: "py_float height = None"
  then show "script (prog # input_pdf # output_pdf # height # extra) w = (UncaughtValueError height, w)"
    by (simp add: script_def)
  then show "exit_status (fst (script (prog # input_pdf # output_pdf # height # extra) w)) = 1"
    by simp
qed

theorem failure_paths_witness:
  "py_float ''50'' = Some (Fin 50)
   \<and> files (disk ''input.pdf'' corrupt_file) ''input.pdf'' =
       Some (NotPdf (PyException ''PdfReadError'' ''EOF marker not found''))
   \<and> script [''remover.py'', ''input.pdf'', ''output.pdf'', ''50''] (disk ''input.pdf'' corrupt_file) =
       (Exited 1,
        (disk ''input.pdf'' corrupt_file)\<lparr>stdout := [''Error processing PDF: EOF marker not found'']\<rparr>)
   \<and> files (read_only_disk ''input.pdf'' (Pdf [letter_page])) ''input.pdf'' = Some (Pdf [letter_page])
   \<and> list_all readable [letter_page]
   \<and> open_error (read_only_disk ''input.pdf'' (Pdf [letter_page])) ''output.pdf'' =
       Some (PyException ''PermissionError'' ''[Errno 13] Permission denied'')
   \<and> script [''remover.py'', ''input.pdf'', ''output.pdf'', ''50'']
         (read_only_disk ''input.pdf'' (Pdf [letter_page])) =
       (Exited 1,
        (read_only_disk ''input.pdf'' (Pdf [letter_page]))
          \<lparr>stdout := [''Processed page 1/1'',
                       ''Error processing PDF: [Errno 13] Permission denied'']\<rparr>)
   \<and> py_float ''abc'' = None
   \<and> script [''remover.py'', ''input.pdf'', ''output.pdf'', ''abc''] (disk ''input.pdf'' (Pdf [letter_page])) =
       (UncaughtValueError ''abc'', disk ''input.pdf'' (Pdf [letter_page]))
   \<and> exit_status (fst (script [''remover.py'', ''input.pdf'', ''output.pdf'', ''abc'']
         (disk ''input.pdf'' (Pdf [letter_page])))) = 1"
  using
    failure_paths [of "''50''" "Fin 50" "disk ''input.pdf'' corrupt_file" "''input.pdf''"
      "PyException ''PdfReadError'' ''EOF marker not found''" "''remover.py''" "''output.pdf''" "[]"]
    failure_paths [of "''50''" "Fin 50" "read_only_disk ''input.pdf'' (Pdf [letter_page])"
      "''input.pdf''" "PyException ''PermissionError'' ''[Errno 13] Permission denied''"
      "''remover.py''" "''output.pdf''" "[]" "[letter_page]"]
    failure_paths [of "''abc''" _ "disk ''input.pdf'' (Pdf [letter_page])" "''input.pdf''" _
      "''remover.py''" "''output.pdf''" "[]"]
  by (simp add: py_float_50 py_float_abc disk_def read_only_disk_def corrupt_file_def
      readable_letter_page print_def error_line_def progress_line_def str_nat.simps [of "Suc 0"])

section \<open>Where rounding shows\<close>



























end
